theory Spec2Isabelle
  imports Complex_Main
begin

section \<open>Empirical Bayes smoothing of points per attempt over a court grid\<close>

text \<open>
  A shallow embedding of \<^verbatim>\<open>empirical_bayes.py\<close>. Data frames are lists of records,
  the row label of a data frame is the position of the row, and exceptions are values of
  a sum type. The columns that pandas holds as 64-bit floats are taken over the reals.
  The columns \<^verbatim>\<open>attempts\<close> and \<^verbatim>\<open>points\<close> are 64-bit integers: the cast
  \<^verbatim>\<open>astype(int)\<close> truncates, and a sum of such a column wraps around.
\<close>

subsection \<open>Data\<close>

datatype error =
    CsvEmpty
  | MadeNotBinary
  | ActionNotPositive
  | GridEmpty
  | NoShotsAssigned
  | NoActiveGrids

text \<open>
  A field of a numeric column as \<^verbatim>\<open>read_csv\<close> gives it: an integer literal (a 64-bit
  integer, from \<open>- 2 ^ 63\<close> up to \<open>2 ^ 63 - 1\<close>), a decimal literal, or an empty field,
  which pandas reads as NaN. pandas holds a column as \<^verbatim>\<open>int64\<close> when every field of it is
  an integer literal, and as \<^verbatim>\<open>float64\<close> otherwise.
\<close>

datatype number = Int64 int | Float64 real | NaN

fun to_float :: "number \<Rightarrow> real option" where
  "to_float (Int64 i) = Some (real_of_int i)"
| "to_float (Float64 r) = Some r"
| "to_float NaN = None"

fun is_int64 :: "number \<Rightarrow> bool" where
  "is_int64 (Int64 i) = True"
| "is_int64 (Float64 r) = False"
| "is_int64 NaN = False"

fun int64_value :: "number \<Rightarrow> int" where
  "int64_value (Int64 i) = i"
| "int64_value (Float64 r) = 0"
| "int64_value NaN = 0"

text \<open>An integer result of 64-bit arithmetic: the value modulo \<open>2 ^ 64\<close>, signed.\<close>

definition wrap64 :: "int \<Rightarrow> int" where
  "wrap64 i = (i + 2 ^ 63) mod 2 ^ 64 - 2 ^ 63"

text \<open>
  \<^verbatim>\<open>astype(int)\<close> on a float: the fraction is cut off, towards zero. A value outside
  the 64-bit range gives \<open>- 2 ^ 63\<close>, which is what the conversion yields on x86-64.
\<close>

definition astype_int :: "real \<Rightarrow> int" where
  "astype_int r =
     (let t = (if 0 \<le> r then \<lfloor>r\<rfloor> else \<lceil>r\<rceil>)
      in if - (2 ^ 63) \<le> t \<and> t < 2 ^ 63 then t else - (2 ^ 63))"

text \<open>
  One row of \<^verbatim>\<open>shots_with_grid\<close>, the left spatial join of the shots with the grid:
  the columns the aggregation reads. \<^verbatim>\<open>index_right\<close> is the label of the grid cell the
  shot lies within, \<open>None\<close> where the join found no cell (pandas writes NaN there).
  Every shot of the file is in the join at least once, so the checks that the source
  makes on the file are made on these rows.
\<close>

record shot =
  action :: number
  made :: number
  index_right :: "nat option"

text \<open>The bounds of a grid cell (columns \<^verbatim>\<open>left\<close>, \<^verbatim>\<open>right\<close>, \<^verbatim>\<open>bottom\<close>, \<^verbatim>\<open>top\<close>).\<close>

record cell_bounds =
  left :: real
  right :: real
  bottom :: real
  top_edge :: real

text \<open>A row of the frame that \<^verbatim>\<open>prepare_data_for_eb\<close> returns.\<close>

record grid_row = cell_bounds +
  attempts :: int
  points :: int
  PPA :: real

text \<open>
  A row of \<^verbatim>\<open>grid_data\<close> inside \<^verbatim>\<open>do_eb\<close>, after the columns \<^verbatim>\<open>x\<close>, \<^verbatim>\<open>y\<close> and
  \<^verbatim>\<open>dist_to_basket\<close> have been added.
\<close>

record eb_row = grid_row +
  col_x :: real
  col_y :: real
  dist_to_basket :: real

text \<open>
  A row of the result. The three columns come from a left merge, which leaves NaN
  (here \<open>None\<close>) where no active row has the label.
\<close>

record out_row = eb_row +
  CellVar :: "real option"
  ShrinkWt :: "real option"
  EB_PPA :: "real option"

subsection \<open>\<^verbatim>\<open>prepare_data_for_eb\<close>: statistics of every grid cell\<close>

text \<open>
  The column \<^verbatim>\<open>points = action * made\<close> is \<^verbatim>\<open>int64\<close> when both factors are, and
  \<^verbatim>\<open>float64\<close> otherwise.
\<close>

definition int64_points :: "shot list \<Rightarrow> bool" where
  "int64_points shots \<longleftrightarrow> list_all (\<lambda>s. is_int64 (action s) \<and> is_int64 (made s)) shots"

text \<open>
  The sum of \<^verbatim>\<open>points\<close> over one group of \<^verbatim>\<open>groupby('index_right')\<close>. An \<^verbatim>\<open>int64\<close>
  column is summed in 64-bit arithmetic; in a \<^verbatim>\<open>float64\<close> column the sum skips NaN.
\<close>

definition points_sum :: "bool \<Rightarrow> shot list \<Rightarrow> real" where
  "points_sum as_int64 grp =
     (if as_int64
      then real_of_int (wrap64 (sum_list (map (\<lambda>s. int64_value (action s) * int64_value (made s)) grp)))
      else sum_list (map (\<lambda>s. case (to_float (action s), to_float (made s)) of
                                  (Some a, Some m) \<Rightarrow> a * m
                                | _ \<Rightarrow> 0) grp))"

text \<open>\<^verbatim>\<open>'action': 'count'\<close>: the number of rows of the group whose action is not NaN.\<close>

definition action_count :: "shot list \<Rightarrow> int" where
  "action_count grp = int (length (filter (\<lambda>s. action s \<noteq> NaN) grp))"

text \<open>
  The row of the result for the cell with label \<open>i\<close>: the aggregation
  \<^verbatim>\<open>agg({'points': 'sum', 'action': 'count'})\<close> of its group, the column \<^verbatim>\<open>PPA\<close> guarded
  by \<^verbatim>\<open>np.where\<close> and computed from the sum as it is, and then the left merge onto the
  grid with \<^verbatim>\<open>fillna(0).astype(int)\<close> on \<^verbatim>\<open>attempts\<close> and \<^verbatim>\<open>points\<close> and
  \<^verbatim>\<open>fillna(0)\<close> on \<^verbatim>\<open>PPA\<close>. A cell without a group gets the zeros. The count of a
  group is far below \<open>2 ^ 63\<close>, so its cast changes nothing.
\<close>

definition shots_of_cell :: "shot list \<Rightarrow> nat \<Rightarrow> shot list" where
  "shots_of_cell shots_assigned i = filter (\<lambda>s. index_right s = Some i) shots_assigned"

definition grid_stats :: "bool \<Rightarrow> shot list \<Rightarrow> nat \<Rightarrow> cell_bounds \<Rightarrow> grid_row" where
  "grid_stats as_int64 shots_assigned i b =
     (let grp = shots_of_cell shots_assigned i in
      if grp = [] then
        \<lparr>left = left b, right = right b, bottom = bottom b, top_edge = top_edge b,
         attempts = 0, points = 0, PPA = 0\<rparr>
      else
        let pts = points_sum as_int64 grp;
            att = action_count grp
        in \<lparr>left = left b, right = right b, bottom = bottom b, top_edge = top_edge b,
            attempts = att, points = astype_int pts,
            PPA = (if att > 0 then pts / real_of_int att else 0)\<rparr>)"

text \<open>
  The checks of \<^verbatim>\<open>prepare_data_for_eb\<close> in the order of the source. \<^verbatim>\<open>isin([0, 1])\<close>
  is false on NaN; \<^verbatim>\<open>min()\<close> skips NaN and is NaN on a column of NaN only, and then
  \<^verbatim>\<open>min() <= 0\<close> is false.
\<close>

definition prepare_data_for_eb :: "shot list \<Rightarrow> cell_bounds list \<Rightarrow> error + grid_row list" where
  "prepare_data_for_eb shots grid =
     (if shots = [] then Inl CsvEmpty
      else if \<not> list_all (\<lambda>s. to_float (made s) = Some 0 \<or> to_float (made s) = Some 1) shots
        then Inl MadeNotBinary
      else if (let present = List.map_filter (\<lambda>s. to_float (action s)) shots
               in present \<noteq> [] \<and> Min (set present) \<le> 0)
        then Inl ActionNotPositive
      else if grid = [] then Inl GridEmpty
      else
        let shots_assigned = filter (\<lambda>s. index_right s \<noteq> None) shots in
        if shots_assigned = [] then Inl NoShotsAssigned
        else Inr (map (\<lambda>(i, b). grid_stats (int64_points shots) shots_assigned i b)
                    (enumerate 0 grid)))"

subsection \<open>\<^verbatim>\<open>do_eb\<close>: centroids and distance to the basket\<close>

definition annotate :: "real \<times> real \<Rightarrow> grid_row \<Rightarrow> eb_row" where
  "annotate basket_coords r =
     (let cx = (left r + right r) / 2;
          cy = (bottom r + top_edge r) / 2
      in \<lparr>left = left r, right = right r, bottom = bottom r, top_edge = top_edge r,
          attempts = attempts r, points = points r, PPA = PPA r,
          col_x = cx, col_y = cy,
          dist_to_basket = sqrt ((cx - fst basket_coords)\<^sup>2 + (cy - snd basket_coords)\<^sup>2)\<rparr>)"

definition active_grids :: "eb_row list \<Rightarrow> (nat \<times> eb_row) list" where
  "active_grids grid_data = filter (\<lambda>(idx, row). attempts row > 0) (enumerate 0 grid_data)"

subsection \<open>\<^verbatim>\<open>get_neighborhood_params\<close>\<close>

text \<open>The two radii, \<^verbatim>\<open>(equidistant_range, close_range)\<close>, for a cell at distance \<open>d\<close>.\<close>

definition neighborhood_radii :: "real \<Rightarrow> real \<times> real" where
  "neighborhood_radii d =
     (if d < 9.144 then (0.3658, 1.524)
      else
        let extra_feet = d - 9.144
        in (0.3658 + 0.1524 * extra_feet, 1.524 + 0.3048 * extra_feet))"

definition equidistant_range :: "real \<Rightarrow> real" where
  "equidistant_range d = fst (neighborhood_radii d)"

definition close_range :: "real \<Rightarrow> real" where
  "close_range d = snd (neighborhood_radii d)"

text \<open>\<^verbatim>\<open>scipy.spatial.distance.cdist\<close> of two points: the Euclidean distance.\<close>

definition cdist :: "real \<times> real \<Rightarrow> real \<times> real \<Rightarrow> real" where
  "cdist p q = sqrt ((fst p - fst q)\<^sup>2 + (snd p - snd q)\<^sup>2)"

definition get_neighborhood_params :: "eb_row \<Rightarrow> (nat \<times> eb_row) list \<Rightarrow> (nat \<times> eb_row) list" where
  "get_neighborhood_params row gdf =
     (let d = dist_to_basket row in
      filter (\<lambda>(j, g).
          \<bar>dist_to_basket g - d\<bar> \<le> equidistant_range d
        \<and> cdist (col_x row, col_y row) (col_x g, col_y g) \<le> close_range d
        \<and> attempts g > 0) gdf)"

subsection \<open>The loop body of \<^verbatim>\<open>do_eb\<close>: the estimate of one active cell\<close>

text \<open>
  \<^verbatim>\<open>neighborhood['attempts'].sum()\<close>, \<^verbatim>\<open>neighborhood['points'].sum()\<close> and
  \<^verbatim>\<open>np.sum(n_j)\<close> are sums of \<^verbatim>\<open>int64\<close> columns, in 64-bit arithmetic; \<^verbatim>\<open>mean()\<close>
  adds up in floating point.
\<close>

definition total_shots :: "(nat \<times> eb_row) list \<Rightarrow> int" where
  "total_shots neighborhood = wrap64 (sum_list (map (\<lambda>(j, g). attempts g) neighborhood))"

definition total_makes :: "(nat \<times> eb_row) list \<Rightarrow> int" where
  "total_makes neighborhood = wrap64 (sum_list (map (\<lambda>(j, g). points g) neighborhood))"

definition gamma_i :: "(nat \<times> eb_row) list \<Rightarrow> real" where
  "gamma_i neighborhood =
     (if total_shots neighborhood > 0
      then real_of_int (total_makes neighborhood) / real_of_int (total_shots neighborhood)
      else 0)"

definition n_bar_j :: "(nat \<times> eb_row) list \<Rightarrow> real" where
  "n_bar_j neighborhood =
     real_of_int (sum_list (map (\<lambda>(j, g). attempts g) neighborhood)) / real (length neighborhood)"

text \<open>
  \<^verbatim>\<open>gamma_j = points / attempts\<close> of one neighbour, with
  \<^verbatim>\<open>replace([inf, -inf], 0).fillna(0)\<close>: a division by zero gives 0.
\<close>

definition gamma_j :: "eb_row \<Rightarrow> real" where
  "gamma_j g = (if attempts g = 0 then 0 else real_of_int (points g) / real_of_int (attempts g))"

definition numerator :: "(nat \<times> eb_row) list \<Rightarrow> real" where
  "numerator neighborhood =
     sum_list (map (\<lambda>(j, g). real_of_int (attempts g) * (PPA g - gamma_j g)\<^sup>2) neighborhood)"

definition denominator :: "(nat \<times> eb_row) list \<Rightarrow> real" where
  "denominator neighborhood =
     real_of_int (wrap64 (sum_list (map (\<lambda>(j, g). attempts g) neighborhood)))"

text \<open>
  The variance estimate as first assigned,
  \<^verbatim>\<open>phi_i = (numerator / denominator) - (gamma_i / n_bar_j)\<close>, before \<^verbatim>\<open>max(0, phi_i)\<close>.
\<close>

definition phi_i_unclamped :: "(nat \<times> eb_row) list \<Rightarrow> real" where
  "phi_i_unclamped neighborhood =
     numerator neighborhood / denominator neighborhood
     - gamma_i neighborhood / n_bar_j neighborhood"

definition phi_i :: "(nat \<times> eb_row) list \<Rightarrow> real" where
  "phi_i neighborhood =
     (if denominator neighborhood > 0 \<and> n_bar_j neighborhood > 0
      then max 0 (numerator neighborhood / denominator neighborhood
                  - gamma_i neighborhood / n_bar_j neighborhood)
      else 0)"

text \<open>
  The weight as first assigned, \<^verbatim>\<open>w_hat_i = phi_i / (phi_i + gamma_i / n_i)\<close>, before
  \<^verbatim>\<open>max(0, min(1, w_hat_i))\<close>.
\<close>

definition w_hat_i_unclamped :: "eb_row \<Rightarrow> (nat \<times> eb_row) list \<Rightarrow> real" where
  "w_hat_i_unclamped row neighborhood =
     phi_i neighborhood
     / (phi_i neighborhood + gamma_i neighborhood / real_of_int (attempts row))"

definition w_hat_i :: "eb_row \<Rightarrow> (nat \<times> eb_row) list \<Rightarrow> real" where
  "w_hat_i row neighborhood =
     (let n_i = real_of_int (attempts row);
          phi = phi_i neighborhood;
          gam = gamma_i neighborhood
      in if n_i > 0 \<and> phi + gam / n_i \<noteq> 0
         then max 0 (min 1 (phi / (phi + gam / n_i)))
         else 0)"

definition theta_i :: "eb_row \<Rightarrow> (nat \<times> eb_row) list \<Rightarrow> real" where
  "theta_i row neighborhood =
     (let r_i = PPA row; w = w_hat_i row neighborhood
      in w * r_i + (1 - w) * gamma_i neighborhood)"

text \<open>The triple appended to \<^verbatim>\<open>phi_values\<close>, \<^verbatim>\<open>w_hat_values\<close> and \<^verbatim>\<open>theta_values\<close>.\<close>

definition eb_cell :: "eb_row \<Rightarrow> (nat \<times> eb_row) list \<Rightarrow> real \<times> real \<times> real" where
  "eb_cell row gdf =
     (let neighborhood = get_neighborhood_params row gdf in
      if neighborhood = [] then (0, 0, PPA row)
      else (phi_i neighborhood, w_hat_i row neighborhood, theta_i row neighborhood))"

subsection \<open>\<^verbatim>\<open>do_eb\<close>: the result frame\<close>

text \<open>
  The left merge of \<^verbatim>\<open>grid_data\<close> with the three new columns of \<^verbatim>\<open>active_grids\<close> on the
  row label, followed by \<^verbatim>\<open>where(grid_data['attempts'] > 0, 0)\<close> on each column.
\<close>

definition merge_row :: "(nat \<times> real \<times> real \<times> real) list \<Rightarrow> nat \<times> eb_row \<Rightarrow> out_row" where
  "merge_row results ir =
     (let (idx, r) = ir;
          m = map_of results idx;
          keep = (\<lambda>v. if attempts r > 0 then v else Some 0)
      in \<lparr>left = left r, right = right r, bottom = bottom r, top_edge = top_edge r,
          attempts = attempts r, points = points r, PPA = PPA r,
          col_x = col_x r, col_y = col_y r, dist_to_basket = dist_to_basket r,
          CellVar = keep (map_option fst m),
          ShrinkWt = keep (map_option (fst \<circ> snd) m),
          EB_PPA = keep (map_option (snd \<circ> snd) m)\<rparr>)"

text \<open>
  \<^verbatim>\<open>do_eb\<close> from the centroids on: the part that works on the frame of cells.
\<close>

definition do_eb_table :: "real \<times> real \<Rightarrow> grid_row list \<Rightarrow> error + out_row list" where
  "do_eb_table basket_coords prepared =
     (let grid_data = map (annotate basket_coords) prepared;
          active = active_grids grid_data
      in if active = [] then Inl NoActiveGrids
         else
           let results = map (\<lambda>(idx, row). (idx, eb_cell row active)) active
           in Inr (map (merge_row results) (enumerate 0 grid_data)))"

definition do_eb :: "shot list \<Rightarrow> cell_bounds list \<Rightarrow> real \<times> real \<Rightarrow> error + out_row list" where
  "do_eb shots grid basket_coords =
     (case prepare_data_for_eb shots grid of
        Inl e \<Rightarrow> Inl e
      | Inr prepared \<Rightarrow> do_eb_table basket_coords prepared)"

subsection \<open>A small court\<close>

text \<open>
  Three cells side by side and the basket between the first two. Two shots fall in the
  first cell, one in the second, none in the third, and one shot outside the grid.
\<close>

definition court_grid :: "cell_bounds list" where
  "court_grid =
     [\<lparr>left = 0, right = 1, bottom = 0, top_edge = 1\<rparr>,
      \<lparr>left = 1, right = 2, bottom = 0, top_edge = 1\<rparr>,
      \<lparr>left = 2, right = 3, bottom = 0, top_edge = 1\<rparr>]"

definition court_shots :: "shot list" where
  "court_shots =
     [\<lparr>action = Int64 2, made = Int64 1, index_right = Some 0\<rparr>,
      \<lparr>action = Int64 3, made = Int64 0, index_right = Some 0\<rparr>,
      \<lparr>action = Int64 3, made = Int64 1, index_right = Some 1\<rparr>,
      \<lparr>action = Int64 2, made = Int64 1, index_right = None\<rparr>]"

definition court_basket :: "real \<times> real" where
  "court_basket = (1, 1 / 2)"

definition court_prepared :: "grid_row list" where
  "court_prepared =
     [\<lparr>left = 0, right = 1, bottom = 0, top_edge = 1, attempts = 2, points = 2, PPA = 1\<rparr>,
      \<lparr>left = 1, right = 2, bottom = 0, top_edge = 1, attempts = 1, points = 3, PPA = 3\<rparr>,
      \<lparr>left = 2, right = 3, bottom = 0, top_edge = 1, attempts = 0, points = 0, PPA = 0\<rparr>]"

definition court_a :: eb_row where
  "court_a = \<lparr>left = 0, right = 1, bottom = 0, top_edge = 1, attempts = 2, points = 2, PPA = 1,
      col_x = 1 / 2, col_y = 1 / 2, dist_to_basket = 1 / 2\<rparr>"

definition court_b :: eb_row where
  "court_b = \<lparr>left = 1, right = 2, bottom = 0, top_edge = 1, attempts = 1, points = 3, PPA = 3,
      col_x = 3 / 2, col_y = 1 / 2, dist_to_basket = 1 / 2\<rparr>"

definition court_c :: eb_row where
  "court_c = \<lparr>left = 2, right = 3, bottom = 0, top_edge = 1, attempts = 0, points = 0, PPA = 0,
      col_x = 5 / 2, col_y = 1 / 2, dist_to_basket = 3 / 2\<rparr>"

definition court_active :: "(nat \<times> eb_row) list" where
  "court_active = [(0, court_a), (1, court_b)]"

definition court_out_a :: out_row where
  "court_out_a = \<lparr>left = 0, right = 1, bottom = 0, top_edge = 1, attempts = 2, points = 2, PPA = 1,
      col_x = 1 / 2, col_y = 1 / 2, dist_to_basket = 1 / 2,
      CellVar = Some 0, ShrinkWt = Some 0, EB_PPA = Some (5 / 3)\<rparr>"

definition court_out_b :: out_row where
  "court_out_b = \<lparr>left = 1, right = 2, bottom = 0, top_edge = 1, attempts = 1, points = 3, PPA = 3,
      col_x = 3 / 2, col_y = 1 / 2, dist_to_basket = 1 / 2,
      CellVar = Some 0, ShrinkWt = Some 0, EB_PPA = Some (5 / 3)\<rparr>"

definition court_out_c :: out_row where
  "court_out_c = \<lparr>left = 2, right = 3, bottom = 0, top_edge = 1, attempts = 0, points = 0, PPA = 0,
      col_x = 5 / 2, col_y = 1 / 2, dist_to_basket = 3 / 2,
      CellVar = Some 0, ShrinkWt = Some 0, EB_PPA = Some 0\<rparr>"

definition court_out :: "out_row list" where
  "court_out = [court_out_a, court_out_b, court_out_c]"

text \<open>
  A frame whose only cell has no attempts, a shot that lies in no cell, and a shot in the
  cell whose action is missing.
\<close>

definition empty_court :: "grid_row list" where
  "empty_court =
     [\<lparr>left = 0, right = 1, bottom = 0, top_edge = 1, attempts = 0, points = 0, PPA = 0\<rparr>]"

definition single_grid :: "cell_bounds list" where
  "single_grid = [\<lparr>left = 0, right = 1, bottom = 0, top_edge = 1\<rparr>]"

definition stray_shots :: "shot list" where
  "stray_shots = [\<lparr>action = Int64 2, made = Int64 1, index_right = None\<rparr>]"

definition blank_shots :: "shot list" where
  "blank_shots = [\<lparr>action = NaN, made = Int64 1, index_right = Some 0\<rparr>]"

text \<open>
  One made shot in the only cell, with the action value 0.5: the sum of the points is 0.5,
  \<^verbatim>\<open>PPA\<close> is 0.5 and the cast leaves 0 in \<^verbatim>\<open>points\<close>.
\<close>

definition half_shots :: "shot list" where
  "half_shots = [\<lparr>action = Float64 (1 / 2), made = Int64 1, index_right = Some 0\<rparr>]"

definition half_prepared :: "grid_row list" where
  "half_prepared =
     [\<lparr>left = 0, right = 1, bottom = 0, top_edge = 1, attempts = 1, points = 0, PPA = 1 / 2\<rparr>]"

definition half_row :: eb_row where
  "half_row = \<lparr>left = 0, right = 1, bottom = 0, top_edge = 1, attempts = 1, points = 0,
      PPA = 1 / 2, col_x = 1 / 2, col_y = 1 / 2, dist_to_basket = 1 / 2\<rparr>"

definition half_active :: "(nat \<times> eb_row) list" where
  "half_active = [(0, half_row)]"

text \<open>A frame of one cell with negative points, where the weight as first assigned is 5/4.\<close>

definition skew_prepared :: "grid_row list" where
  "skew_prepared =
     [\<lparr>left = 0, right = 1, bottom = 0, top_edge = 1, attempts = 1, points = - 1, PPA = 1\<rparr>]"

definition skew_row :: eb_row where
  "skew_row = \<lparr>left = 0, right = 1, bottom = 0, top_edge = 1, attempts = 1, points = - 1,
      PPA = 1, col_x = 1 / 2, col_y = 1 / 2, dist_to_basket = 1 / 2\<rparr>"

definition skew_active :: "(nat \<times> eb_row) list" where
  "skew_active = [(0, skew_row)]"

definition skew_out_row :: out_row where
  "skew_out_row = \<lparr>left = 0, right = 1, bottom = 0, top_edge = 1, attempts = 1, points = - 1,
      PPA = 1, col_x = 1 / 2, col_y = 1 / 2, dist_to_basket = 1 / 2,
      CellVar = Some 5, ShrinkWt = Some 1, EB_PPA = Some 1\<rparr>"

text \<open>
  Shots with the action value \<open>2 ^ 62\<close>, which fits the 64-bit range: one in each of the
  first two cells of the small court, where the sum of the points of the neighbourhood
  wraps around, and two in one cell, where the sum of the group does.
\<close>

definition wide_shots :: "shot list" where
  "wide_shots =
     [\<lparr>action = Int64 (2 ^ 62), made = Int64 1, index_right = Some 0\<rparr>,
      \<lparr>action = Int64 (2 ^ 62), made = Int64 1, index_right = Some 1\<rparr>]"

definition wide_prepared :: "grid_row list" where
  "wide_prepared =
     [\<lparr>left = 0, right = 1, bottom = 0, top_edge = 1, attempts = 1, points = 2 ^ 62, PPA = 2 ^ 62\<rparr>,
      \<lparr>left = 1, right = 2, bottom = 0, top_edge = 1, attempts = 1, points = 2 ^ 62, PPA = 2 ^ 62\<rparr>,
      \<lparr>left = 2, right = 3, bottom = 0, top_edge = 1, attempts = 0, points = 0, PPA = 0\<rparr>]"

definition wide_a :: eb_row where
  "wide_a = \<lparr>left = 0, right = 1, bottom = 0, top_edge = 1, attempts = 1, points = 2 ^ 62,
      PPA = 2 ^ 62, col_x = 1 / 2, col_y = 1 / 2, dist_to_basket = 1 / 2\<rparr>"

definition wide_b :: eb_row where
  "wide_b = \<lparr>left = 1, right = 2, bottom = 0, top_edge = 1, attempts = 1, points = 2 ^ 62,
      PPA = 2 ^ 62, col_x = 3 / 2, col_y = 1 / 2, dist_to_basket = 1 / 2\<rparr>"

definition wide_active :: "(nat \<times> eb_row) list" where
  "wide_active = [(0, wide_a), (1, wide_b)]"

definition pair_shots :: "shot list" where
  "pair_shots =
     [\<lparr>action = Int64 (2 ^ 62), made = Int64 1, index_right = Some 0\<rparr>,
      \<lparr>action = Int64 (2 ^ 62), made = Int64 1, index_right = Some 0\<rparr>]"

definition pair_prepared :: "grid_row list" where
  "pair_prepared =
     [\<lparr>left = 0, right = 1, bottom = 0, top_edge = 1, attempts = 2, points = - (2 ^ 63),
       PPA = - (2 ^ 62)\<rparr>]"

section \<open>Properties of the parts\<close>

subsection \<open>The radii and the neighbourhood\<close>

lemma equidistant_range_pos: "0 < equidistant_range d"
proof (cases "d < 9.144")
  case True
  then show ?thesis by (simp add: equidistant_range_def neighborhood_radii_def)
next
  case False
  then show ?thesis
    by (simp add: equidistant_range_def neighborhood_radii_def Let_def field_simps)
qed

lemma close_range_pos: "0 < close_range d"
proof (cases "d < 9.144")
  case True
  then show ?thesis by (simp add: close_range_def neighborhood_radii_def)
next
  case False
  then show ?thesis
    by (simp add: close_range_def neighborhood_radii_def Let_def field_simps)
qed

lemma cdist_self: "cdist p p = 0"
  by (simp add: cdist_def)

lemma in_get_neighborhood_params_iff:
  "(j, g) \<in> set (get_neighborhood_params row gdf) \<longleftrightarrow>
     (j, g) \<in> set gdf
   \<and> \<bar>dist_to_basket g - dist_to_basket row\<bar> \<le> equidistant_range (dist_to_basket row)
   \<and> cdist (col_x row, col_y row) (col_x g, col_y g) \<le> close_range (dist_to_basket row)
   \<and> attempts g > 0"
  by (auto simp: get_neighborhood_params_def Let_def)

lemma self_in_neighborhood:
  assumes "(i, row) \<in> set gdf" and "attempts row > 0"
  shows "(i, row) \<in> set (get_neighborhood_params row gdf)"
  using assms equidistant_range_pos [of "dist_to_basket row"] close_range_pos [of "dist_to_basket row"]
  by (simp add: in_get_neighborhood_params_iff cdist_self less_imp_le)

lemma neighborhood_subset: "set (get_neighborhood_params row gdf) \<subseteq> set gdf"
  by (auto simp: get_neighborhood_params_def Let_def)


subsection \<open>The statistics of the prepared frame\<close>

lemma wrap64_id: "- (2 ^ 63) \<le> i \<Longrightarrow> i < 2 ^ 63 \<Longrightarrow> wrap64 i = i"
  by (simp add: wrap64_def)

lemma wrap64_range: "- (2 ^ 63) \<le> wrap64 i \<and> wrap64 i < 2 ^ 63"
proof -
  have "0 \<le> (i + 2 ^ 63) mod (2 ^ 64 :: int)" "(i + 2 ^ 63) mod (2 ^ 64 :: int) < 2 ^ 64"
    by simp_all
  then show ?thesis unfolding wrap64_def by simp
qed

lemma astype_int_of_int:
  "- (2 ^ 63) \<le> k \<Longrightarrow> k < 2 ^ 63 \<Longrightarrow> astype_int (real_of_int k) = k"
  by (simp add: astype_int_def Let_def)

lemma grid_stats_int64_consistent:
  assumes "attempts (grid_stats True sa i b) > 0"
  shows "PPA (grid_stats True sa i b)
       = real_of_int (points (grid_stats True sa i b)) / real_of_int (attempts (grid_stats True sa i b))"
proof -
  have "astype_int (points_sum True grp) = wrap64 (sum_list (map (\<lambda>s. int64_value (action s) * int64_value (made s)) grp))"
    for grp
    using wrap64_range by (simp add: points_sum_def astype_int_of_int)
  then have "real_of_int (astype_int (points_sum True grp)) = points_sum True grp" for grp
    by (simp add: points_sum_def)
  with assms show ?thesis
    by (simp add: grid_stats_def Let_def split: if_splits)
qed

lemma prepare_int64_consistent:
  assumes "prepare_data_for_eb shots grid = Inr prepared" and "int64_points shots"
    and "r \<in> set prepared" and "attempts r > 0"
  shows "PPA r = real_of_int (points r) / real_of_int (attempts r)"
proof -
  define sa where "sa = filter (\<lambda>s. index_right s \<noteq> None) shots"
  from assms(1,2) have "prepared = map (\<lambda>(i, b). grid_stats True sa i b) (enumerate 0 grid)"
    by (auto simp: prepare_data_for_eb_def Let_def sa_def split: if_splits)
  with assms(3) obtain i b where "r = grid_stats True sa i b" by auto
  with assms(4) show ?thesis using grid_stats_int64_consistent [of sa i b] by simp
qed

lemma annotate_cols [simp]:
  "attempts (annotate bc r) = attempts r"
  "points (annotate bc r) = points r"
  "PPA (annotate bc r) = PPA r"
  by (simp_all add: annotate_def Let_def)

lemma in_active_grids:
  "(i, row) \<in> set (active_grids gd) \<longleftrightarrow> i < length gd \<and> row = gd ! i \<and> attempts row > 0"
  by (auto simp: active_grids_def in_set_enumerate_eq)

lemma distinct_active_grids: "distinct (map fst (active_grids gd))"
  unfolding active_grids_def by (intro distinct_map_filter) (simp add: enumerate_eq_zip)

lemma active_grids_empty_iff: "active_grids gd = [] \<longleftrightarrow> \<not> (\<exists>r\<in>set gd. attempts r > 0)"
proof
  assume e: "active_grids gd = []"
  show "\<not> (\<exists>r\<in>set gd. attempts r > 0)"
  proof
    assume "\<exists>r\<in>set gd. attempts r > 0"
    then obtain i where "i < length gd" "attempts (gd ! i) > 0" by (auto simp: in_set_conv_nth)
    then have "(i, gd ! i) \<in> set (active_grids gd)" by (simp add: in_active_grids)
    with e show False by simp
  qed
next
  assume n: "\<not> (\<exists>r\<in>set gd. attempts r > 0)"
  show "active_grids gd = []"
  proof (rule ccontr)
    assume "active_grids gd \<noteq> []"
    then obtain i r where "(i, r) \<in> set (active_grids gd)" by (cases "active_grids gd") auto
    then have "r \<in> set gd" "attempts r > 0" by (auto simp: in_active_grids)
    with n show False by blast
  qed
qed

subsection \<open>The estimate of one cell\<close>

lemma phi_i_nonneg: "0 \<le> phi_i nb"
  by (simp add: phi_i_def)

lemma w_hat_i_bounds: "0 \<le> w_hat_i row nb \<and> w_hat_i row nb \<le> 1"
  by (simp add: w_hat_i_def Let_def)

lemma theta_i_convex:
  "min (PPA row) (gamma_i nb) \<le> theta_i row nb \<and> theta_i row nb \<le> max (PPA row) (gamma_i nb)"
proof -
  define w where "w = w_hat_i row nb"
  have w: "0 \<le> w" "w \<le> 1" using w_hat_i_bounds [of row nb] by (simp_all add: w_def)
  have th: "theta_i row nb = w * PPA row + (1 - w) * gamma_i nb"
    by (simp add: theta_i_def Let_def w_def)
  have lo: "min (PPA row) (gamma_i nb) \<le> w * PPA row + (1 - w) * gamma_i nb"
  proof -
    have "w * min (PPA row) (gamma_i nb) \<le> w * PPA row"
      using w by (intro mult_left_mono) simp_all
    moreover have "(1 - w) * min (PPA row) (gamma_i nb) \<le> (1 - w) * gamma_i nb"
      using w by (intro mult_left_mono) simp_all
    ultimately have "w * min (PPA row) (gamma_i nb) + (1 - w) * min (PPA row) (gamma_i nb)
        \<le> w * PPA row + (1 - w) * gamma_i nb" by (rule add_mono)
    then show ?thesis by (simp add: algebra_simps)
  qed
  have hi: "w * PPA row + (1 - w) * gamma_i nb \<le> max (PPA row) (gamma_i nb)"
  proof -
    have "w * PPA row \<le> w * max (PPA row) (gamma_i nb)"
      using w by (intro mult_left_mono) simp_all
    moreover have "(1 - w) * gamma_i nb \<le> (1 - w) * max (PPA row) (gamma_i nb)"
      using w by (intro mult_left_mono) simp_all
    ultimately have "w * PPA row + (1 - w) * gamma_i nb
        \<le> w * max (PPA row) (gamma_i nb) + (1 - w) * max (PPA row) (gamma_i nb)" by (rule add_mono)
    then show ?thesis by (simp add: algebra_simps)
  qed
  show ?thesis unfolding th using lo hi by simp
qed

lemma numerator_zero:
  assumes "\<forall>(j, g)\<in>set nb. attempts g > 0 \<and> PPA g = real_of_int (points g) / real_of_int (attempts g)"
  shows "numerator nb = 0"
  using assms unfolding numerator_def
  by (induction nb) (auto simp: gamma_j_def)



lemma attempts_sum_pos:
  fixes nb :: "(nat \<times> eb_row) list"
  assumes "nb \<noteq> []" and "\<forall>(j, g)\<in>set nb. attempts g > 0"
  shows "sum_list (map (\<lambda>(j, g). attempts g) nb) > 0"
proof -
  have nonneg: "0 \<le> sum_list (map (\<lambda>(j, g). attempts g) xs)"
    if "\<forall>(j, g)\<in>set xs. attempts g > 0" for xs :: "(nat \<times> eb_row) list"
    using that by (intro sum_list_nonneg) auto
  from assms obtain j g rest where nb: "nb = (j, g) # rest" by (cases nb) auto
  with assms(2) have "attempts g > 0" and "\<forall>(j, g)\<in>set rest. attempts g > 0" by auto
  with nonneg [of rest] show ?thesis by (simp add: nb)
qed

lemma points_sum_nonneg:
  fixes nb :: "(nat \<times> eb_row) list"
  assumes "\<forall>(j, g)\<in>set nb. 0 \<le> points g"
  shows "0 \<le> sum_list (map (\<lambda>(j, g). points g) nb)"
  using assms by (intro sum_list_nonneg) auto

lemma phi_i_zero:
  assumes "nb \<noteq> []"
    and "\<forall>(j, g)\<in>set nb. attempts g > 0 \<and> 0 \<le> points g
        \<and> PPA g = real_of_int (points g) / real_of_int (attempts g)"
    and "sum_list (map (\<lambda>(j, g). points g) nb) < 2 ^ 63"
  shows "phi_i nb = 0"
proof -
  have num: "numerator nb = 0" using assms(2) by (intro numerator_zero) auto
  have "0 \<le> sum_list (map (\<lambda>(j, g). points g) nb)"
    using assms(2) by (intro points_sum_nonneg) auto
  with assms(3) have "0 \<le> total_makes nb" by (simp add: total_makes_def wrap64_id)
  then have gam: "0 \<le> gamma_i nb" by (simp add: gamma_i_def)
  show ?thesis
  proof (cases "denominator nb > 0 \<and> n_bar_j nb > 0")
    case True
    then have "0 \<le> gamma_i nb / n_bar_j nb" using gam by simp
    with True show ?thesis by (simp add: phi_i_def num)
  next
    case False
    then show ?thesis unfolding phi_i_def by (simp only: if_False)
  qed
qed

lemma w_hat_i_zero: "phi_i nb = 0 \<Longrightarrow> w_hat_i row nb = 0"
  by (simp add: w_hat_i_def Let_def)

lemma theta_i_gamma: "w_hat_i row nb = 0 \<Longrightarrow> theta_i row nb = gamma_i nb"
  by (simp add: theta_i_def Let_def)

lemma eb_cell_bounds:
  "0 \<le> fst (eb_cell row gdf)" "0 \<le> fst (snd (eb_cell row gdf))" "fst (snd (eb_cell row gdf)) \<le> 1"
  using phi_i_nonneg [of "get_neighborhood_params row gdf"]
    w_hat_i_bounds [of row "get_neighborhood_params row gdf"]
  by (simp_all add: eb_cell_def Let_def)

subsection \<open>The result frame\<close>

lemma results_lookup:
  assumes "distinct (map fst xs)" and "(i, r) \<in> set xs"
  shows "map_of (map (\<lambda>(idx, row). (idx, f row)) xs) i = Some (f r)"
proof (rule map_of_is_SomeI)
  have "map fst (map (\<lambda>(idx, row). (idx, f row)) xs) = map fst xs"
    by (induction xs) auto
  with assms(1) show "distinct (map fst (map (\<lambda>(idx, row). (idx, f row)) xs))"
    by (simp only:)
  from assms(2) show "(i, f r) \<in> set (map (\<lambda>(idx, row). (idx, f row)) xs)" by force
qed

lemma merge_row_cols [simp]:
  "attempts (merge_row results (i, r)) = attempts r"
  "CellVar (merge_row results (i, r)) =
     (if attempts r > 0 then map_option fst (map_of results i) else Some 0)"
  "ShrinkWt (merge_row results (i, r)) =
     (if attempts r > 0 then map_option (fst \<circ> snd) (map_of results i) else Some 0)"
  "EB_PPA (merge_row results (i, r)) =
     (if attempts r > 0 then map_option (snd \<circ> snd) (map_of results i) else Some 0)"
  by (simp_all add: merge_row_def Let_def)

lemma do_eb_table_Inr:
  assumes "do_eb_table bc prepared = Inr out"
  shows "out = map (merge_row (map (\<lambda>(idx, row). (idx, eb_cell row (active_grids (map (annotate bc) prepared))))
                      (active_grids (map (annotate bc) prepared))))
                 (enumerate 0 (map (annotate bc) prepared))"
  using assms by (simp add: do_eb_table_def Let_def split: if_splits)

lemma out_row_cases:
  assumes "do_eb_table bc prepared = Inr out" and "o' \<in> set out"
  obtains "attempts o' \<le> 0" "CellVar o' = Some 0" "ShrinkWt o' = Some 0" "EB_PPA o' = Some 0"
  | i r where "(i, r) \<in> set (active_grids (map (annotate bc) prepared))"
      "attempts o' = attempts r" "attempts r > 0"
      "CellVar o' = Some (fst (eb_cell r (active_grids (map (annotate bc) prepared))))"
      "ShrinkWt o' = Some (fst (snd (eb_cell r (active_grids (map (annotate bc) prepared)))))"
      "EB_PPA o' = Some (snd (snd (eb_cell r (active_grids (map (annotate bc) prepared)))))"
proof -
  define gd where "gd = map (annotate bc) prepared"
  define act where "act = active_grids gd"
  define res where "res = map (\<lambda>(idx, row). (idx, eb_cell row act)) act"
  have out: "out = map (merge_row res) (enumerate 0 gd)"
    using do_eb_table_Inr [OF assms(1)] by (simp add: gd_def act_def res_def)
  with assms(2) obtain i r where ir: "(i, r) \<in> set (enumerate 0 gd)" and o': "o' = merge_row res (i, r)"
    by auto
  show thesis
  proof (cases "attempts r > 0")
    case False
    then show thesis using o' that(1) by simp
  next
    case True
    with ir have mem: "(i, r) \<in> set act"
      by (auto simp: act_def in_active_grids in_set_enumerate_eq)
    have "map_of res i = Some (eb_cell r act)"
      unfolding res_def by (rule results_lookup [OF _ mem]) (simp add: act_def distinct_active_grids)
    with True o' mem show thesis
      using that(2) [of i r] by (simp add: act_def gd_def)
  qed
qed

lemma out_row_at:
  assumes "do_eb_table bc prepared = Inr out" and "i < length prepared"
  shows "i < length out"
    and "eb_row.truncate (out ! i) = annotate bc (prepared ! i)"
    and "attempts (prepared ! i) > 0 \<Longrightarrow>
           (CellVar (out ! i), ShrinkWt (out ! i), EB_PPA (out ! i)) =
           (Some (fst (eb_cell (annotate bc (prepared ! i)) (active_grids (map (annotate bc) prepared)))),
            Some (fst (snd (eb_cell (annotate bc (prepared ! i)) (active_grids (map (annotate bc) prepared))))),
            Some (snd (snd (eb_cell (annotate bc (prepared ! i)) (active_grids (map (annotate bc) prepared))))))"
    and "\<not> attempts (prepared ! i) > 0 \<Longrightarrow>
           (CellVar (out ! i), ShrinkWt (out ! i), EB_PPA (out ! i)) = (Some 0, Some 0, Some 0)"
proof -
  define gd where "gd = map (annotate bc) prepared"
  define act where "act = active_grids gd"
  define res where "res = map (\<lambda>(idx, row). (idx, eb_cell row act)) act"
  have out: "out = map (merge_row res) (enumerate 0 gd)"
    using do_eb_table_Inr [OF assms(1)] by (simp add: gd_def act_def res_def)
  from assms(2) show len: "i < length out" by (simp add: out gd_def)
  have oi: "out ! i = merge_row res (i, annotate bc (prepared ! i))"
    using assms(2) by (simp add: out gd_def nth_enumerate_eq)
  show "eb_row.truncate (out ! i) = annotate bc (prepared ! i)"
    by (simp add: oi merge_row_def Let_def eb_row.truncate_def out_row.defs eb_row.defs
        grid_row.defs cell_bounds.defs annotate_def)
  show "(CellVar (out ! i), ShrinkWt (out ! i), EB_PPA (out ! i)) = (Some 0, Some 0, Some 0)"
    if "\<not> attempts (prepared ! i) > 0"
    using that by (simp add: oi)
  show "(CellVar (out ! i), ShrinkWt (out ! i), EB_PPA (out ! i)) =
           (Some (fst (eb_cell (annotate bc (prepared ! i)) (active_grids (map (annotate bc) prepared)))),
            Some (fst (snd (eb_cell (annotate bc (prepared ! i)) (active_grids (map (annotate bc) prepared))))),
            Some (snd (snd (eb_cell (annotate bc (prepared ! i)) (active_grids (map (annotate bc) prepared))))))"
    if pos: "attempts (prepared ! i) > 0"
  proof -
    have mem: "(i, annotate bc (prepared ! i)) \<in> set act"
      using assms(2) pos by (simp add: act_def gd_def in_active_grids)
    have "map_of res i = Some (eb_cell (annotate bc (prepared ! i)) act)"
      unfolding res_def by (rule results_lookup [OF _ mem]) (simp add: act_def distinct_active_grids)
    with pos show ?thesis by (simp add: oi act_def gd_def)
  qed
qed

subsection \<open>The small court, evaluated\<close>

lemma court_prepare: "prepare_data_for_eb court_shots court_grid = Inr court_prepared"
  by (simp add: prepare_data_for_eb_def court_shots_def court_grid_def court_prepared_def
      grid_stats_def shots_of_cell_def points_sum_def action_count_def int64_points_def
      List.map_filter_def wrap64_def astype_int_def enumerate_eq_zip upt_rec Let_def)

lemma sqrt_quarter: "sqrt (1 / 4) = 1 / 2"
  by (rule real_sqrt_unique) (simp_all add: power2_eq_square)

lemma sqrt_nine_quarters: "sqrt (9 / 4) = 3 / 2"
  by (rule real_sqrt_unique) (simp_all add: power2_eq_square)

lemma court_annotate:
  "map (annotate court_basket) court_prepared = [court_a, court_b, court_c]"
  by (simp add: annotate_def court_basket_def court_prepared_def court_a_def court_b_def court_c_def
      Let_def power2_eq_square sqrt_quarter sqrt_nine_quarters)

lemma court_active_grids: "active_grids [court_a, court_b, court_c] = court_active"
  by (simp add: active_grids_def enumerate_eq_zip upt_rec court_a_def court_b_def court_c_def
      court_active_def)

lemma court_active_mem: "(0, court_a) \<in> set court_active" "(1, court_b) \<in> set court_active"
  by (simp_all add: court_active_def)

lemma court_active_eq: "court_active = active_grids (map (annotate court_basket) court_prepared)"
  by (simp only: court_annotate court_active_grids)

lemma court_active_ne: "court_active \<noteq> []"
  by (simp add: court_active_def)

lemma court_radii: "equidistant_range (1 / 2) = 0.3658" "close_range (1 / 2) = 1.524"
  by (simp_all add: equidistant_range_def close_range_def neighborhood_radii_def)

lemma court_neighborhood_a: "get_neighborhood_params court_a court_active = court_active"
  by (simp add: get_neighborhood_params_def Let_def cdist_def court_radii court_a_def court_b_def
      court_active_def)

lemma court_neighborhood_b: "get_neighborhood_params court_b court_active = court_active"
  by (simp add: get_neighborhood_params_def Let_def cdist_def court_radii court_a_def court_b_def
      court_active_def)

lemma court_totals: "total_shots court_active = 3" "total_makes court_active = 5"
  by (simp_all add: total_shots_def total_makes_def wrap64_def court_a_def court_b_def
      court_active_def)

lemma court_gamma: "gamma_i court_active = 5 / 3"
  by (simp add: gamma_i_def court_totals)

lemma court_numerator: "numerator court_active = 0"
  by (simp add: numerator_def gamma_j_def court_a_def court_b_def court_active_def)

lemma court_n_bar: "n_bar_j court_active = 3 / 2" "denominator court_active = 3"
  by (simp_all add: n_bar_j_def denominator_def wrap64_def court_a_def court_b_def
      court_active_def)

lemma court_phi: "phi_i court_active = 0"
  by (simp add: phi_i_def court_numerator court_gamma court_n_bar)

lemma court_w_hat: "w_hat_i court_a court_active = 0" "w_hat_i court_b court_active = 0"
  by (simp_all add: w_hat_i_def court_phi Let_def)

lemma court_theta: "theta_i court_a court_active = 5 / 3" "theta_i court_b court_active = 5 / 3"
  by (simp_all add: theta_i_def court_w_hat court_gamma Let_def)

lemma court_eb_cell:
  "eb_cell court_a court_active = (0, 0, 5 / 3)"
  "eb_cell court_b court_active = (0, 0, 5 / 3)"
proof -
  have ne: "court_active \<noteq> []" by (simp add: court_active_def)
  show "eb_cell court_a court_active = (0, 0, 5 / 3)"
    using ne by (simp add: eb_cell_def court_neighborhood_a Let_def court_phi court_w_hat court_theta)
  show "eb_cell court_b court_active = (0, 0, 5 / 3)"
    using ne by (simp add: eb_cell_def court_neighborhood_b Let_def court_phi court_w_hat court_theta)
qed

lemma court_results:
  "map (\<lambda>(idx, row). (idx, eb_cell row court_active)) court_active
     = [(0, (0, 0, 5 / 3)), (1, (0, 0, 5 / 3))]"
proof -
  have "map (\<lambda>(idx, row). (idx, eb_cell row court_active)) court_active
      = [(0, eb_cell court_a court_active), (1, eb_cell court_b court_active)]"
    by (simp add: court_active_def)
  then show ?thesis by (simp only: court_eb_cell)
qed

lemma court_do_eb_table: "do_eb_table court_basket court_prepared = Inr court_out"
proof -
  have ne: "court_active \<noteq> []" by (simp add: court_active_def)
  have "do_eb_table court_basket court_prepared =
      Inr (map (merge_row [(0, (0, 0, 5 / 3)), (1, (0, 0, 5 / 3))])
             (enumerate 0 [court_a, court_b, court_c]))"
    using ne by (simp add: do_eb_table_def court_annotate court_active_grids Let_def court_results)
  also have "\<dots> = Inr court_out"
    by (simp add: enumerate_eq_zip upt_rec merge_row_def court_out_def court_out_a_def court_out_b_def court_out_c_def
        court_a_def court_b_def court_c_def)
  finally show ?thesis .
qed

lemma court_phi_unclamped: "phi_i_unclamped court_active = - (10 / 9)"
  by (simp add: phi_i_unclamped_def court_numerator court_gamma court_n_bar)

lemma court_w_unclamped: "w_hat_i_unclamped court_a court_active = 0"
  by (simp add: w_hat_i_unclamped_def court_phi)

lemma court_rows:
  "court_prepared ! 0 \<in> set court_prepared" "attempts (court_prepared ! 0) = 2"
  "attempts (court_prepared ! 2) = 0" "length court_prepared = 3"
  "court_out ! 0 = court_out_a" "court_out ! 2 = court_out_c"
  "annotate court_basket (court_prepared ! 0) = court_a"
  "annotate court_basket (court_prepared ! 2) = court_c"
proof -
  have m: "map (annotate court_basket) court_prepared ! 0 = court_a"
    "map (annotate court_basket) court_prepared ! 2 = court_c"
    by (simp_all only: court_annotate) simp_all
  show "court_prepared ! 0 \<in> set court_prepared" "attempts (court_prepared ! 0) = 2"
    "attempts (court_prepared ! 2) = 0" "length court_prepared = 3"
    "court_out ! 0 = court_out_a" "court_out ! 2 = court_out_c"
    by (simp_all add: court_prepared_def court_out_def)
  have l: "0 < length court_prepared" "2 < length court_prepared"
    by (simp_all add: court_prepared_def)
  show "annotate court_basket (court_prepared ! 0) = court_a"
    using m(1) l(1) by (simp only: nth_map)
  show "annotate court_basket (court_prepared ! 2) = court_c"
    using m(2) l(2) by (simp only: nth_map)
qed

subsection \<open>The other frames, evaluated\<close>

lemma astype_int_half: "astype_int (1 / 2) = 0"
proof -
  have "\<lfloor>1 / 2 :: real\<rfloor> = 0" by (rule floor_unique) simp_all
  then show ?thesis by (simp add: astype_int_def Let_def)
qed

lemma half_prepare: "prepare_data_for_eb half_shots single_grid = Inr half_prepared"
  by (simp add: prepare_data_for_eb_def half_shots_def single_grid_def half_prepared_def
      grid_stats_def shots_of_cell_def points_sum_def action_count_def int64_points_def
      List.map_filter_def astype_int_half enumerate_eq_zip Let_def)

lemma blank_prepare: "prepare_data_for_eb blank_shots single_grid = Inr empty_court"
  by (simp add: prepare_data_for_eb_def blank_shots_def single_grid_def empty_court_def
      grid_stats_def shots_of_cell_def points_sum_def action_count_def int64_points_def
      List.map_filter_def astype_int_def enumerate_eq_zip Let_def)

lemma empty_court_raises: "do_eb_table basket_coords empty_court = Inl NoActiveGrids"
  by (simp add: do_eb_table_def active_grids_def enumerate_eq_zip Let_def empty_court_def)

lemma blank_do_eb: "do_eb blank_shots single_grid basket_coords = Inl NoActiveGrids"
  by (simp add: do_eb_def blank_prepare empty_court_raises)

lemma stray_do_eb: "do_eb stray_shots court_grid basket_coords = Inl NoShotsAssigned"
  by (simp add: do_eb_def prepare_data_for_eb_def stray_shots_def court_grid_def
      List.map_filter_def)

lemma half_annotate: "map (annotate court_basket) half_prepared = [half_row]"
  by (simp add: annotate_def court_basket_def half_prepared_def half_row_def
      Let_def power2_eq_square sqrt_quarter)

lemma half_active_grids: "active_grids [half_row] = half_active"
  by (simp add: active_grids_def enumerate_eq_zip half_row_def half_active_def)

lemma half_neighborhood: "get_neighborhood_params half_row half_active = half_active"
  by (simp add: get_neighborhood_params_def Let_def cdist_def court_radii half_row_def
      half_active_def)

lemma half_rates: "PPA half_row = 1 / 2" "gamma_j half_row = 0"
  "attempts half_row = 1" "points half_row = 0"
  by (simp_all add: gamma_j_def half_row_def)

lemma half_numerator: "numerator half_active = 1 / 4"
  by (simp add: numerator_def half_active_def half_rates power2_eq_square)

lemma half_totals: "total_shots half_active = 1" "total_makes half_active = 0"
  "gamma_i half_active = 0" "n_bar_j half_active = 1" "denominator half_active = 1"
  by (simp_all add: total_shots_def total_makes_def gamma_i_def n_bar_j_def denominator_def
      wrap64_def half_active_def half_rates)

lemma half_phi: "phi_i half_active = 1 / 4"
  by (simp add: phi_i_def half_numerator half_totals)

lemma half_w_hat: "w_hat_i half_row half_active = 1"
  by (simp add: w_hat_i_def Let_def half_phi half_totals half_rates)

lemma half_theta: "theta_i half_row half_active = 1 / 2"
  by (simp add: theta_i_def Let_def half_w_hat half_rates)

lemma half_eb_cell: "eb_cell half_row half_active = (1 / 4, 1, 1 / 2)"
  by (simp add: eb_cell_def half_neighborhood Let_def half_phi half_w_hat half_theta)
     (simp add: half_active_def)

lemma skew_annotate: "map (annotate court_basket) skew_prepared = [skew_row]"
  by (simp add: annotate_def court_basket_def skew_prepared_def skew_row_def
      Let_def power2_eq_square sqrt_quarter)

lemma skew_active_grids: "active_grids [skew_row] = skew_active"
  by (simp add: active_grids_def enumerate_eq_zip skew_row_def skew_active_def)

lemma skew_neighborhood: "get_neighborhood_params skew_row skew_active = skew_active"
  by (simp add: get_neighborhood_params_def Let_def cdist_def court_radii skew_row_def
      skew_active_def)

lemma skew_rates: "PPA skew_row = 1" "gamma_j skew_row = - 1"
  "attempts skew_row = 1" "points skew_row = - 1"
  by (simp_all add: gamma_j_def skew_row_def)

lemma skew_totals: "gamma_i skew_active = - 1" "n_bar_j skew_active = 1"
  "denominator skew_active = 1" "numerator skew_active = 4"
  by (simp_all add: total_shots_def total_makes_def gamma_i_def n_bar_j_def denominator_def
      numerator_def wrap64_def skew_active_def skew_rates power2_eq_square)

lemma skew_phi: "phi_i_unclamped skew_active = 5" "phi_i skew_active = 5"
  by (simp_all add: phi_i_def phi_i_unclamped_def skew_totals)

lemma skew_w_hat: "w_hat_i_unclamped skew_row skew_active = 5 / 4" "w_hat_i skew_row skew_active = 1"
  by (simp_all add: w_hat_i_def w_hat_i_unclamped_def Let_def skew_phi skew_totals skew_rates)

lemma skew_theta: "theta_i skew_row skew_active = 1"
  by (simp add: theta_i_def Let_def skew_w_hat skew_rates)

lemma skew_eb_cell: "eb_cell skew_row skew_active = (5, 1, 1)"
  by (simp add: eb_cell_def skew_neighborhood Let_def skew_phi skew_w_hat skew_theta)
     (simp add: skew_active_def)

lemma skew_do_eb_table: "do_eb_table court_basket skew_prepared = Inr [skew_out_row]"
proof -
  have ne: "skew_active \<noteq> []" by (simp add: skew_active_def)
  have res: "map (\<lambda>(idx, row). (idx, eb_cell row skew_active)) skew_active = [(0, (5, 1, 1))]"
  proof -
    have "map (\<lambda>(idx, row). (idx, eb_cell row skew_active)) skew_active
        = [(0, eb_cell skew_row skew_active)]" by (simp add: skew_active_def)
    then show ?thesis by (simp only: skew_eb_cell)
  qed
  have "do_eb_table court_basket skew_prepared =
      Inr (map (merge_row [(0, (5, 1, 1))]) (enumerate 0 [skew_row]))"
    using ne by (simp add: do_eb_table_def skew_annotate skew_active_grids Let_def res)
  also have "\<dots> = Inr [skew_out_row]"
    by (simp add: enumerate_eq_zip merge_row_def skew_out_row_def skew_row_def)
  finally show ?thesis .
qed

lemma wide_prepare: "prepare_data_for_eb wide_shots court_grid = Inr wide_prepared"
  by (simp add: prepare_data_for_eb_def wide_shots_def court_grid_def wide_prepared_def
      grid_stats_def shots_of_cell_def points_sum_def action_count_def int64_points_def
      List.map_filter_def wrap64_def astype_int_def enumerate_eq_zip upt_rec Let_def)

lemma pair_prepare: "prepare_data_for_eb pair_shots single_grid = Inr pair_prepared"
  by (simp add: prepare_data_for_eb_def pair_shots_def single_grid_def pair_prepared_def
      grid_stats_def shots_of_cell_def points_sum_def action_count_def int64_points_def
      List.map_filter_def wrap64_def astype_int_def enumerate_eq_zip Let_def)

lemma wide_annotate: "map (annotate court_basket) wide_prepared = [wide_a, wide_b, court_c]"
  by (simp add: annotate_def court_basket_def wide_prepared_def wide_a_def wide_b_def court_c_def
      Let_def power2_eq_square sqrt_quarter sqrt_nine_quarters)

lemma wide_active_grids: "active_grids [wide_a, wide_b, court_c] = wide_active"
  by (simp add: active_grids_def enumerate_eq_zip upt_rec wide_a_def wide_b_def court_c_def
      wide_active_def)

lemma wide_neighborhood: "get_neighborhood_params wide_a wide_active = wide_active"
  by (simp add: get_neighborhood_params_def Let_def cdist_def court_radii wide_a_def wide_b_def
      wide_active_def)

lemma wide_rows:
  "0 \<le> points wide_a" "0 < attempts wide_a"
  "PPA wide_a = real_of_int (points wide_a) / real_of_int (attempts wide_a)"
  "0 \<le> points wide_b" "0 < attempts wide_b"
  "PPA wide_b = real_of_int (points wide_b) / real_of_int (attempts wide_b)"
  by (simp_all add: wide_a_def wide_b_def)

lemma wide_totals:
  "sum_list (map (\<lambda>(j, n). points n) wide_active) = 2 ^ 63"
  "total_shots wide_active = 2" "total_makes wide_active = - (2 ^ 63)"
  "gamma_i wide_active = - (2 ^ 62)" "n_bar_j wide_active = 1" "denominator wide_active = 2"
  "numerator wide_active = 0"
  by (simp_all add: total_shots_def total_makes_def gamma_i_def n_bar_j_def denominator_def
      numerator_def gamma_j_def wrap64_def wide_active_def wide_a_def wide_b_def)

lemma wide_phi: "phi_i wide_active = 2 ^ 62"
  by (simp add: phi_i_def wide_totals)

lemma wide_w_hat: "w_hat_i wide_a wide_active = 0"
  by (simp add: w_hat_i_def Let_def wide_phi wide_totals wide_a_def)

lemma wide_theta: "theta_i wide_a wide_active = - (2 ^ 62)"
  by (simp add: theta_i_def Let_def wide_w_hat wide_totals)

lemma wide_eb_cell: "eb_cell wide_a wide_active = (2 ^ 62, 0, - (2 ^ 62))"
  by (simp add: eb_cell_def wide_neighborhood Let_def wide_phi wide_w_hat wide_theta)
     (simp add: wide_active_def)

section \<open>The claims\<close>




text \<open>
  Claim C2, amended. For a cell with a non-empty neighbourhood whose members have
  non-negative points, positive attempts and a column \<^verbatim>\<open>PPA\<close> equal to their
  \<^verbatim>\<open>points / attempts\<close>, and whose total attempts and total points are below \<open>2 ^ 63\<close>,
  the variance component is 0, the shrinkage weight is 0 and the smoothed rate is the
  pooled rate of the neighbourhood, total points over total attempts: the raw rate of the
  cell has weight zero.
\<close>

theorem zero_weight_when_rates_agree:
  assumes "neighborhood = get_neighborhood_params row gdf" and "neighborhood \<noteq> []"
    and "\<forall>(j, n)\<in>set neighborhood. 0 \<le> points n \<and> 0 < attempts n
           \<and> PPA n = real_of_int (points n) / real_of_int (attempts n)"
    and "sum_list (map (\<lambda>(j, n). attempts n) neighborhood) < 2 ^ 63"
    and "sum_list (map (\<lambda>(j, n). points n) neighborhood) < 2 ^ 63"
  shows "eb_cell row gdf =
           (0, 0, real_of_int (sum_list (map (\<lambda>(j, n). points n) neighborhood))
                  / real_of_int (sum_list (map (\<lambda>(j, n). attempts n) neighborhood)))
       \<and> phi_i neighborhood = 0 \<and> w_hat_i row neighborhood = 0
       \<and> theta_i row neighborhood = 0 * PPA row + (1 - 0) * gamma_i neighborhood
       \<and> gamma_i neighborhood =
           real_of_int (sum_list (map (\<lambda>(j, n). points n) neighborhood))
           / real_of_int (sum_list (map (\<lambda>(j, n). attempts n) neighborhood))"
proof -
  have nb: "\<forall>(j, g)\<in>set neighborhood. attempts g > 0 \<and> 0 \<le> points g
      \<and> PPA g = real_of_int (points g) / real_of_int (attempts g)"
    using assms(3) by auto
  have phi: "phi_i neighborhood = 0" by (rule phi_i_zero [OF assms(2) nb assms(5)])
  have w: "w_hat_i row neighborhood = 0" by (rule w_hat_i_zero [OF phi])
  have th: "theta_i row neighborhood = gamma_i neighborhood" by (rule theta_i_gamma [OF w])
  have apos: "0 < sum_list (map (\<lambda>(j, n). attempts n) neighborhood)"
    using assms(2) nb by (intro attempts_sum_pos) auto
  have pnn: "0 \<le> sum_list (map (\<lambda>(j, n). points n) neighborhood)"
    using nb by (intro points_sum_nonneg) auto
  have ts: "total_shots neighborhood = sum_list (map (\<lambda>(j, n). attempts n) neighborhood)"
    using apos assms(4) by (simp add: total_shots_def wrap64_id)
  have tm: "total_makes neighborhood = sum_list (map (\<lambda>(j, n). points n) neighborhood)"
    using pnn assms(5) by (simp add: total_makes_def wrap64_id)
  have gam: "gamma_i neighborhood =
      real_of_int (sum_list (map (\<lambda>(j, n). points n) neighborhood))
      / real_of_int (sum_list (map (\<lambda>(j, n). attempts n) neighborhood))"
    using apos by (simp add: gamma_i_def ts tm)
  have "eb_cell row gdf = (phi_i neighborhood, w_hat_i row neighborhood, theta_i row neighborhood)"
    using assms(2) by (simp add: eb_cell_def assms(1) Let_def)
  then show ?thesis by (simp add: phi w th gam)
qed

theorem zero_weight_when_rates_agree_witness:
  "court_active = get_neighborhood_params court_b court_active \<and> court_active \<noteq> []
   \<and> 0 \<le> points court_a \<and> 0 < attempts court_a
   \<and> PPA court_a = real_of_int (points court_a) / real_of_int (attempts court_a)
   \<and> 0 \<le> points court_b \<and> 0 < attempts court_b
   \<and> PPA court_b = real_of_int (points court_b) / real_of_int (attempts court_b)
   \<and> sum_list (map (\<lambda>(j, n). attempts n) court_active) = 3
   \<and> sum_list (map (\<lambda>(j, n). points n) court_active) = 5
   \<and> eb_cell court_b court_active = (0, 0, 5 / 3)
   \<and> phi_i court_active = 0 \<and> w_hat_i court_b court_active = 0
   \<and> theta_i court_b court_active = 5 / 3 \<and> gamma_i court_active = 5 / 3
   \<and> PPA court_b = 3"
proof -
  have nb: "court_active = get_neighborhood_params court_b court_active"
    by (simp only: court_neighborhood_b)
  have a: "0 \<le> points court_a" "0 < attempts court_a"
    "PPA court_a = real_of_int (points court_a) / real_of_int (attempts court_a)"
    by (simp_all add: court_a_def)
  have b: "0 \<le> points court_b" "0 < attempts court_b"
    "PPA court_b = real_of_int (points court_b) / real_of_int (attempts court_b)"
    "PPA court_b = 3"
    by (simp_all add: court_b_def)
  have rows: "\<forall>(j, n)\<in>set court_active. 0 \<le> points n \<and> 0 < attempts n
           \<and> PPA n = real_of_int (points n) / real_of_int (attempts n)"
    using a b by (simp add: court_active_def)
  have sa: "sum_list (map (\<lambda>(j, n). attempts n) court_active) = 3"
    and sp: "sum_list (map (\<lambda>(j, n). points n) court_active) = 5"
    by (simp_all add: court_active_def court_a_def court_b_def)
  have ba: "sum_list (map (\<lambda>(j, n). attempts n) court_active) < 2 ^ 63"
    and bp: "sum_list (map (\<lambda>(j, n). points n) court_active) < 2 ^ 63"
    by (simp_all add: sa sp)
  from zero_weight_when_rates_agree [OF nb court_active_ne rows ba bp]
  have "eb_cell court_b court_active = (0, 0, 5 / 3)"
    and "phi_i court_active = 0" and "w_hat_i court_b court_active = 0"
    and "theta_i court_b court_active = 5 / 3" and "gamma_i court_active = 5 / 3"
    by (simp_all add: sa sp)
  with nb court_active_ne a b sa sp show ?thesis by simp
qed

text \<open>
  On the frame of the shot with the action value 0.5 the cell has no negative points and
  has attempts, and the estimate is the variance 1/4, the weight 1 and the raw rate 0.5,
  where the pooled rate is 0.
\<close>

theorem fractional_action_weight_counterexample:
  "active_grids (map (annotate court_basket) half_prepared) = half_active
   \<and> (0, half_row) \<in> set half_active
   \<and> get_neighborhood_params half_row half_active = half_active \<and> half_active \<noteq> []
   \<and> 0 \<le> points half_row \<and> 0 < attempts half_row
   \<and> eb_cell half_row half_active = (1 / 4, 1, 1 / 2)
   \<and> gamma_i half_active = 0"
  by (simp add: half_annotate half_active_grids half_neighborhood half_rates half_eb_cell
      half_totals)
     (simp add: half_active_def)

text \<open>
  Claim C3, amended. The neighbourhood of a cell consists of exactly the rows of the frame
  of active cells that have attempts, lie in the distance band of the cell and lie within
  its proximity radius. Nothing in the selection compares the label of a row with the
  label of the target cell, so the target cell is not excluded.
\<close>

theorem neighborhood_membership:
  "(j, n) \<in> set (get_neighborhood_params row gdf) \<longleftrightarrow>
     (j, n) \<in> set gdf
   \<and> \<bar>dist_to_basket n - dist_to_basket row\<bar> \<le> equidistant_range (dist_to_basket row)
   \<and> cdist (col_x row, col_y row) (col_x n, col_y n) \<le> close_range (dist_to_basket row)
   \<and> attempts n > 0"
  by (rule in_get_neighborhood_params_iff)

theorem neighborhood_membership_witness:
  "(1, court_b) \<in> set (get_neighborhood_params court_a court_active)
   \<and> (1, court_b) \<in> set court_active
   \<and> \<bar>dist_to_basket court_b - dist_to_basket court_a\<bar> \<le> equidistant_range (dist_to_basket court_a)
   \<and> cdist (col_x court_a, col_y court_a) (col_x court_b, col_y court_b)
        \<le> close_range (dist_to_basket court_a)
   \<and> attempts court_b > 0"
proof -
  have "(1, court_b) \<in> set (get_neighborhood_params court_a court_active)"
    by (simp only: court_neighborhood_a court_active_mem)
  then show ?thesis using neighborhood_membership [of 1 court_b court_a court_active] by simp
qed

text \<open>The target cell in its own neighbourhood, on the small court.\<close>

theorem target_not_excluded_counterexample:
  "(0, court_a) \<in> set court_active \<and> attempts court_a > 0
   \<and> (0, court_a) \<in> set (get_neighborhood_params court_a court_active)"
  by (simp add: court_neighborhood_a court_active_mem) (simp add: court_a_def)

text \<open>
  Claim C4. Every row of the frame of active cells has attempts and lies in its own
  neighbourhood, so the neighbourhood is never empty and the loop body of \<^verbatim>\<open>do_eb\<close>
  never takes the branch for an empty neighbourhood.
\<close>

theorem target_in_own_neighborhood:
  assumes "active = active_grids grid_data"
    and "(idx, row) \<in> set active"
  shows "attempts row > 0
       \<and> (idx, row) \<in> set (get_neighborhood_params row active)
       \<and> get_neighborhood_params row active \<noteq> []
       \<and> eb_cell row active =
           (phi_i (get_neighborhood_params row active),
            w_hat_i row (get_neighborhood_params row active),
            theta_i row (get_neighborhood_params row active))"
proof -
  from assms have pos: "attempts row > 0" by (auto simp: in_active_grids)
  have self: "(idx, row) \<in> set (get_neighborhood_params row active)"
    by (rule self_in_neighborhood [OF assms(2) pos])
  then have ne: "get_neighborhood_params row active \<noteq> []" by auto
  then show ?thesis using pos self by (simp add: eb_cell_def Let_def)
qed

theorem target_in_own_neighborhood_witness:
  "court_active = active_grids [court_a, court_b, court_c]
   \<and> (1, court_b) \<in> set court_active
   \<and> attempts court_b > 0
   \<and> (1, court_b) \<in> set (get_neighborhood_params court_b court_active)
   \<and> get_neighborhood_params court_b court_active \<noteq> []
   \<and> eb_cell court_b court_active =
        (phi_i (get_neighborhood_params court_b court_active),
         w_hat_i court_b (get_neighborhood_params court_b court_active),
         theta_i court_b (get_neighborhood_params court_b court_active))"
  using target_in_own_neighborhood [OF court_active_grids [symmetric] court_active_mem(2)]
    court_active_grids court_active_mem(2) by simp

text \<open>
  Claim C5, amended. Given a frame of cells of which at least one has attempts,
  \<^verbatim>\<open>do_eb\<close> completes: the result has the rows of the frame in their order, each with
  its own columns unchanged and with a value in each of the three new columns, the
  estimate of the cell when it has attempts and 0 when it has none. Given a frame in which
  no cell has attempts, \<^verbatim>\<open>do_eb\<close> raises \<^verbatim>\<open>ValueError\<close> ("No grids with attempts for
  analysis.") at the guard on \<^verbatim>\<open>active_grids.empty\<close>.
\<close>

theorem do_eb_table_outcome:
  "((\<exists>r\<in>set prepared. attempts r > 0) \<longrightarrow>
      (\<exists>out. do_eb_table basket_coords prepared = Inr out \<and> length out = length prepared
         \<and> (\<forall>i<length prepared.
               eb_row.truncate (out ! i) = annotate basket_coords (prepared ! i)
             \<and> CellVar (out ! i) \<noteq> None \<and> ShrinkWt (out ! i) \<noteq> None \<and> EB_PPA (out ! i) \<noteq> None
             \<and> (attempts (prepared ! i) > 0 \<longrightarrow>
                  (CellVar (out ! i), ShrinkWt (out ! i), EB_PPA (out ! i)) =
                  (let e = eb_cell (annotate basket_coords (prepared ! i))
                             (active_grids (map (annotate basket_coords) prepared))
                   in (Some (fst e), Some (fst (snd e)), Some (snd (snd e)))))
             \<and> (\<not> attempts (prepared ! i) > 0 \<longrightarrow>
                  (CellVar (out ! i), ShrinkWt (out ! i), EB_PPA (out ! i)) = (Some 0, Some 0, Some 0)))))
 \<and> (\<not> (\<exists>r\<in>set prepared. attempts r > 0) \<longrightarrow>
      do_eb_table basket_coords prepared = Inl NoActiveGrids)"
proof (intro conjI impI)
  assume "\<exists>r\<in>set prepared. attempts r > 0"
  then have "\<exists>r\<in>set (map (annotate basket_coords) prepared). attempts r > 0" by auto
  then have ne: "active_grids (map (annotate basket_coords) prepared) \<noteq> []"
    by (simp only: active_grids_empty_iff not_not)
  then obtain out where out: "do_eb_table basket_coords prepared = Inr out"
    by (simp add: do_eb_table_def Let_def)
  have len: "length out = length prepared"
    using do_eb_table_Inr [OF out] by simp
  have "eb_row.truncate (out ! i) = annotate basket_coords (prepared ! i)
      \<and> CellVar (out ! i) \<noteq> None \<and> ShrinkWt (out ! i) \<noteq> None \<and> EB_PPA (out ! i) \<noteq> None
      \<and> (attempts (prepared ! i) > 0 \<longrightarrow>
            (CellVar (out ! i), ShrinkWt (out ! i), EB_PPA (out ! i)) =
            (let e = eb_cell (annotate basket_coords (prepared ! i))
                       (active_grids (map (annotate basket_coords) prepared))
             in (Some (fst e), Some (fst (snd e)), Some (snd (snd e)))))
      \<and> (\<not> attempts (prepared ! i) > 0 \<longrightarrow>
            (CellVar (out ! i), ShrinkWt (out ! i), EB_PPA (out ! i)) = (Some 0, Some 0, Some 0))"
    if i: "i < length prepared" for i
  proof (cases "attempts (prepared ! i) > 0")
    case True
    with out_row_at(2,3) [OF out i] show ?thesis by (simp add: Let_def)
  next
    case False
    with out_row_at(2,4) [OF out i] show ?thesis by simp
  qed
  with out len show "\<exists>out. do_eb_table basket_coords prepared = Inr out \<and> length out = length prepared
         \<and> (\<forall>i<length prepared.
               eb_row.truncate (out ! i) = annotate basket_coords (prepared ! i)
             \<and> CellVar (out ! i) \<noteq> None \<and> ShrinkWt (out ! i) \<noteq> None \<and> EB_PPA (out ! i) \<noteq> None
             \<and> (attempts (prepared ! i) > 0 \<longrightarrow>
                  (CellVar (out ! i), ShrinkWt (out ! i), EB_PPA (out ! i)) =
                  (let e = eb_cell (annotate basket_coords (prepared ! i))
                             (active_grids (map (annotate basket_coords) prepared))
                   in (Some (fst e), Some (fst (snd e)), Some (snd (snd e)))))
             \<and> (\<not> attempts (prepared ! i) > 0 \<longrightarrow>
                  (CellVar (out ! i), ShrinkWt (out ! i), EB_PPA (out ! i)) = (Some 0, Some 0, Some 0)))"
    by blast
next
  assume "\<not> (\<exists>r\<in>set prepared. attempts r > 0)"
  then have "\<not> (\<exists>r\<in>set (map (annotate basket_coords) prepared). attempts r > 0)" by auto
  then have "active_grids (map (annotate basket_coords) prepared) = []"
    using active_grids_empty_iff by blast
  then show "do_eb_table basket_coords prepared = Inl NoActiveGrids"
    by (simp add: do_eb_table_def Let_def)
qed

theorem do_eb_table_outcome_witness:
  "court_prepared ! 0 \<in> set court_prepared \<and> attempts (court_prepared ! 0) = 2
   \<and> do_eb_table court_basket court_prepared = Inr court_out
   \<and> length court_out = length court_prepared
   \<and> eb_row.truncate (court_out ! 0) = annotate court_basket (court_prepared ! 0)
   \<and> (CellVar (court_out ! 0), ShrinkWt (court_out ! 0), EB_PPA (court_out ! 0))
       = (Some 0, Some 0, Some (5 / 3))
   \<and> eb_cell (annotate court_basket (court_prepared ! 0))
        (active_grids (map (annotate court_basket) court_prepared)) = (0, 0, 5 / 3)
   \<and> attempts (court_prepared ! 2) = 0
   \<and> eb_row.truncate (court_out ! 2) = annotate court_basket (court_prepared ! 2)
   \<and> (CellVar (court_out ! 2), ShrinkWt (court_out ! 2), EB_PPA (court_out ! 2))
       = (Some 0, Some 0, Some 0)
   \<and> length empty_court = 1 \<and> attempts (empty_court ! 0) = 0
   \<and> do_eb_table court_basket empty_court = Inl NoActiveGrids"
proof -
  have ex: "\<exists>r\<in>set court_prepared. attempts r > 0"
    using court_rows(1,2) by force
  from do_eb_table_outcome [of court_prepared court_basket] ex obtain out
    where out: "do_eb_table court_basket court_prepared = Inr out"
      and len: "length out = length court_prepared"
      and val: "\<forall>i<length court_prepared.
               eb_row.truncate (out ! i) = annotate court_basket (court_prepared ! i)
             \<and> CellVar (out ! i) \<noteq> None \<and> ShrinkWt (out ! i) \<noteq> None \<and> EB_PPA (out ! i) \<noteq> None
             \<and> (attempts (court_prepared ! i) > 0 \<longrightarrow>
                  (CellVar (out ! i), ShrinkWt (out ! i), EB_PPA (out ! i)) =
                  (let e = eb_cell (annotate court_basket (court_prepared ! i))
                             (active_grids (map (annotate court_basket) court_prepared))
                   in (Some (fst e), Some (fst (snd e)), Some (snd (snd e)))))
             \<and> (\<not> attempts (court_prepared ! i) > 0 \<longrightarrow>
                  (CellVar (out ! i), ShrinkWt (out ! i), EB_PPA (out ! i)) = (Some 0, Some 0, Some 0))"
    by blast
  from out have eq: "out = court_out" by (simp add: court_do_eb_table)
  have e0: "eb_cell (annotate court_basket (court_prepared ! 0))
        (active_grids (map (annotate court_basket) court_prepared)) = (0, 0, 5 / 3)"
    by (simp only: court_rows court_active_eq [symmetric] court_eb_cell)
  have "0 < length court_prepared" "2 < length court_prepared" by (simp_all add: court_rows)
  with val have v0: "eb_row.truncate (out ! 0) = annotate court_basket (court_prepared ! 0)"
    "attempts (court_prepared ! 0) > 0 \<longrightarrow>
       (CellVar (out ! 0), ShrinkWt (out ! 0), EB_PPA (out ! 0)) =
       (let e = eb_cell (annotate court_basket (court_prepared ! 0))
                  (active_grids (map (annotate court_basket) court_prepared))
        in (Some (fst e), Some (fst (snd e)), Some (snd (snd e))))"
    and v2: "eb_row.truncate (out ! 2) = annotate court_basket (court_prepared ! 2)"
    "\<not> attempts (court_prepared ! 2) > 0 \<longrightarrow>
       (CellVar (out ! 2), ShrinkWt (out ! 2), EB_PPA (out ! 2)) = (Some 0, Some 0, Some 0)"
    by blast+
  from v0(2) have c0: "(CellVar (out ! 0), ShrinkWt (out ! 0), EB_PPA (out ! 0))
       = (Some 0, Some 0, Some (5 / 3))"
    by (simp add: e0 court_rows(2))
  from v2(2) have c2: "(CellVar (out ! 2), ShrinkWt (out ! 2), EB_PPA (out ! 2))
       = (Some 0, Some 0, Some 0)"
    by (simp add: court_rows(3))
  have emp: "length empty_court = 1" "attempts (empty_court ! 0) = 0"
    by (simp_all add: empty_court_def)
  have "\<not> (\<exists>r\<in>set empty_court. attempts r > 0)" by (simp add: empty_court_def)
  with do_eb_table_outcome [of empty_court court_basket]
  have raise: "do_eb_table court_basket empty_court = Inl NoActiveGrids" by blast
  show ?thesis
    using court_rows(1,2,3) out len v0(1) c0 e0 v2(1) c2 emp raise
    unfolding eq by (intro conjI) assumption+
qed

text \<open>
  A frame whose only cell has no attempts: the guard raises.
\<close>

theorem no_attempts_raises_counterexample:
  "length empty_court = 1 \<and> attempts (empty_court ! 0) = 0
   \<and> do_eb_table court_basket empty_court = Inl NoActiveGrids"
  by (simp add: empty_court_raises) (simp add: empty_court_def)

text \<open>
  Claim C6. Every row of the result with \<^verbatim>\<open>attempts == 0\<close> has \<^verbatim>\<open>CellVar\<close>,
  \<^verbatim>\<open>ShrinkWt\<close> and \<^verbatim>\<open>EB_PPA\<close> all equal to 0, whatever its geometry and its neighbours.
\<close>

theorem zero_attempt_rows_zero:
  assumes "do_eb_table basket_coords prepared = Inr out" and "o' \<in> set out" and "attempts o' = 0"
  shows "CellVar o' = Some 0 \<and> ShrinkWt o' = Some 0 \<and> EB_PPA o' = Some 0"
  using assms(1,2)
proof (rule out_row_cases)
  fix r :: eb_row assume "attempts o' = attempts r" "attempts r > 0"
  with assms(3) show ?thesis by simp
qed simp

theorem zero_attempt_rows_zero_witness:
  "do_eb_table court_basket court_prepared = Inr court_out
   \<and> court_out_c \<in> set court_out \<and> attempts court_out_c = 0
   \<and> CellVar court_out_c = Some 0 \<and> ShrinkWt court_out_c = Some 0
   \<and> EB_PPA court_out_c = Some 0"
proof -
  have mem: "court_out_c \<in> set court_out" by (simp add: court_out_def)
  have att: "attempts court_out_c = 0" by (simp add: court_out_c_def)
  from zero_attempt_rows_zero [OF court_do_eb_table mem att] court_do_eb_table mem att
  show ?thesis by simp
qed

text \<open>
  Claim C7. For every row of the result with attempts, the variance component is not
  negative and the shrinkage weight lies in the closed interval from 0 to 1, and both are
  the clamped estimates of the neighbourhood of the row: the variance as first assigned,
  replaced by 0 when it is negative, and the weight as first assigned, replaced by 0 when
  it is negative and by 1 when it exceeds 1. Where a guard of the source does not hold the
  value is 0.
\<close>

theorem weight_and_variance_bounds:
  assumes "do_eb_table basket_coords prepared = Inr out"
    and "i < length prepared" and "attempts (prepared ! i) > 0"
    and "row = annotate basket_coords (prepared ! i)"
    and "neighborhood =
           get_neighborhood_params row (active_grids (map (annotate basket_coords) prepared))"
  shows "\<exists>phi w. CellVar (out ! i) = Some phi \<and> ShrinkWt (out ! i) = Some w
       \<and> 0 \<le> phi \<and> 0 \<le> w \<and> w \<le> 1
       \<and> phi = (if denominator neighborhood > 0 \<and> n_bar_j neighborhood > 0
                then (if phi_i_unclamped neighborhood < 0 then 0
                      else phi_i_unclamped neighborhood)
                else 0)
       \<and> w = (if phi + gamma_i neighborhood / real_of_int (attempts row) \<noteq> 0
              then (if w_hat_i_unclamped row neighborhood < 0 then 0
                    else if w_hat_i_unclamped row neighborhood > 1 then 1
                    else w_hat_i_unclamped row neighborhood)
              else 0)"
proof -
  define act where "act = active_grids (map (annotate basket_coords) prepared)"
  have pos: "attempts row > 0" using assms(3,4) by simp
  have mem: "(i, row) \<in> set act"
    using assms(2,3,4) by (simp add: act_def in_active_grids)
  have ne: "neighborhood \<noteq> []"
    using self_in_neighborhood [OF mem pos] by (auto simp: assms(5) act_def)
  have cell: "eb_cell row act = (phi_i neighborhood, w_hat_i row neighborhood, theta_i row neighborhood)"
    using ne by (simp add: eb_cell_def Let_def assms(5) act_def)
  have cols: "CellVar (out ! i) = Some (phi_i neighborhood)"
    "ShrinkWt (out ! i) = Some (w_hat_i row neighborhood)"
    using out_row_at(3) [OF assms(1,2,3)] cell by (simp_all add: assms(4) act_def)
  have phi: "phi_i neighborhood =
      (if denominator neighborhood > 0 \<and> n_bar_j neighborhood > 0
       then (if phi_i_unclamped neighborhood < 0 then 0 else phi_i_unclamped neighborhood)
       else 0)"
    by (simp add: phi_i_def phi_i_unclamped_def max_def)
  have w: "w_hat_i row neighborhood =
      (if phi_i neighborhood + gamma_i neighborhood / real_of_int (attempts row) \<noteq> 0
       then (if w_hat_i_unclamped row neighborhood < 0 then 0
             else if w_hat_i_unclamped row neighborhood > 1 then 1
             else w_hat_i_unclamped row neighborhood)
       else 0)"
    using pos by (simp add: w_hat_i_def w_hat_i_unclamped_def Let_def max_def min_def)
  show ?thesis
    using cols phi w phi_i_nonneg [of neighborhood] w_hat_i_bounds [of row neighborhood]
    by (intro exI [of _ "phi_i neighborhood"] exI [of _ "w_hat_i row neighborhood"]) simp
qed

theorem weight_and_variance_bounds_witness:
  "do_eb_table court_basket court_prepared = Inr court_out
   \<and> attempts (court_prepared ! 0) > 0
   \<and> court_a = annotate court_basket (court_prepared ! 0)
   \<and> court_active = get_neighborhood_params court_a
        (active_grids (map (annotate court_basket) court_prepared))
   \<and> CellVar (court_out ! 0) = Some 0 \<and> ShrinkWt (court_out ! 0) = Some 0
   \<and> phi_i_unclamped court_active = - (10 / 9)
   \<and> w_hat_i_unclamped court_a court_active = 0
   \<and> do_eb_table court_basket skew_prepared = Inr [skew_out_row]
   \<and> attempts (skew_prepared ! 0) > 0
   \<and> skew_row = annotate court_basket (skew_prepared ! 0)
   \<and> skew_active = get_neighborhood_params skew_row
        (active_grids (map (annotate court_basket) skew_prepared))
   \<and> CellVar ([skew_out_row] ! 0) = Some 5 \<and> ShrinkWt ([skew_out_row] ! 0) = Some 1
   \<and> phi_i_unclamped skew_active = 5
   \<and> w_hat_i_unclamped skew_row skew_active = 5 / 4"
proof -
  have c1: "0 < length court_prepared" "attempts (court_prepared ! 0) > 0"
    "court_a = annotate court_basket (court_prepared ! 0)"
    by (simp_all add: court_rows)
  have c2: "court_active = get_neighborhood_params court_a
        (active_grids (map (annotate court_basket) court_prepared))"
    by (simp only: court_active_eq [symmetric] court_neighborhood_a)
  have c3: "CellVar (court_out ! 0) = Some 0" "ShrinkWt (court_out ! 0) = Some 0"
    by (simp_all add: court_rows court_out_a_def)
  have s0: "skew_prepared ! 0 \<in> set skew_prepared" "0 < length skew_prepared"
    "attempts (skew_prepared ! 0) > 0"
    by (simp_all add: skew_prepared_def)
  have "map (annotate court_basket) skew_prepared ! 0 = skew_row"
    by (simp only: skew_annotate) simp
  then have s1: "skew_row = annotate court_basket (skew_prepared ! 0)"
    using s0(2) by (simp only: nth_map)
  have s2: "skew_active = get_neighborhood_params skew_row
        (active_grids (map (annotate court_basket) skew_prepared))"
    by (simp only: skew_annotate skew_active_grids skew_neighborhood)
  have s3: "CellVar ([skew_out_row] ! 0) = Some 5" "ShrinkWt ([skew_out_row] ! 0) = Some 1"
    by (simp_all add: skew_out_row_def)
  note a = weight_and_variance_bounds [OF court_do_eb_table c1 c2]
  note b = weight_and_variance_bounds [OF skew_do_eb_table s0(2,3) s1 s2]
  show ?thesis
    using a b court_do_eb_table c1(2,3) c2 c3 court_phi_unclamped court_w_unclamped
      skew_do_eb_table s0(3) s1 s2 s3 skew_phi(1) skew_w_hat(1)
    by (intro conjI) assumption+
qed

text \<open>
  Claim C8. When the neighbourhood of a cell is empty, the estimate is the fallback:
  variance component 0, shrinkage weight 0 and the raw rate of the cell as smoothed rate.
\<close>

theorem empty_neighborhood_fallback:
  assumes "get_neighborhood_params row gdf = []"
  shows "eb_cell row gdf = (0, 0, PPA row)"
  using assms by (simp add: eb_cell_def)

theorem empty_neighborhood_fallback_witness:
  "get_neighborhood_params court_a [(2, court_c)] = []
   \<and> eb_cell court_a [(2, court_c)] = (0, 0, PPA court_a) \<and> PPA court_a = 1"
proof -
  have e: "get_neighborhood_params court_a [(2, court_c)] = []"
    by (simp add: get_neighborhood_params_def Let_def court_a_def court_c_def court_radii)
  from empty_neighborhood_fallback [OF e] e show ?thesis by (simp add: court_a_def)
qed

text \<open>
  Claim C9. For a cell with a non-empty neighbourhood the smoothed rate is the convex
  combination \<open>w * r_i + (1 - w) * gamma_i\<close> with \<open>w\<close> between 0 and 1, so it lies
  between the smaller and the larger of the raw rate of the cell and the regional rate.
\<close>

theorem smoothed_rate_convex:
  assumes "neighborhood = get_neighborhood_params row gdf" and "neighborhood \<noteq> []"
    and "eb_cell row gdf = (phi, w, theta)"
  shows "theta = w * PPA row + (1 - w) * gamma_i neighborhood \<and> 0 \<le> w \<and> w \<le> 1
       \<and> min (PPA row) (gamma_i neighborhood) \<le> theta
       \<and> theta \<le> max (PPA row) (gamma_i neighborhood)"
proof -
  from assms have w: "w = w_hat_i row neighborhood" and th: "theta = theta_i row neighborhood"
    by (simp_all add: eb_cell_def Let_def)
  have "theta = w * PPA row + (1 - w) * gamma_i neighborhood"
    by (simp add: th w theta_i_def Let_def)
  then show ?thesis
    using w_hat_i_bounds [of row neighborhood] theta_i_convex [of row neighborhood]
    by (simp add: w th)
qed

theorem smoothed_rate_convex_witness:
  "court_active = get_neighborhood_params court_a court_active \<and> court_active \<noteq> []
   \<and> eb_cell court_a court_active = (0, 0, 5 / 3)
   \<and> 5 / 3 = 0 * PPA court_a + (1 - 0) * gamma_i court_active \<and> (0::real) \<le> 0 \<and> (0::real) \<le> 1
   \<and> min (PPA court_a) (gamma_i court_active) \<le> 5 / 3
   \<and> 5 / 3 \<le> max (PPA court_a) (gamma_i court_active)"
  using smoothed_rate_convex [OF court_neighborhood_a [symmetric] court_active_ne court_eb_cell(1)]
    court_neighborhood_a court_active_ne court_eb_cell(1) by simp

text \<open>
  Claim C10. For a distance below the threshold 9.144 the radii are the constants 0.3658
  and 1.524; for a distance above it they are those constants plus 0.1524 and 0.3048 times
  the excess over the threshold, hence strictly greater.
\<close>

theorem radii_grow:
  assumes "d1 < 9.144" and "9.144 < d2"
  shows "equidistant_range d1 = 0.3658 \<and> close_range d1 = 1.524
       \<and> equidistant_range d2 = 0.3658 + 0.1524 * (d2 - 9.144)
       \<and> close_range d2 = 1.524 + 0.3048 * (d2 - 9.144)
       \<and> equidistant_range d1 < equidistant_range d2
       \<and> close_range d1 < close_range d2"
  using assms
  by (simp add: equidistant_range_def close_range_def neighborhood_radii_def Let_def)

theorem radii_grow_witness:
  "(9::real) < 9.144 \<and> (9.144::real) < 10.144
   \<and> equidistant_range 9 = 0.3658 \<and> close_range 9 = 1.524
   \<and> equidistant_range 10.144 = 0.5182 \<and> close_range 10.144 = 1.8288
   \<and> equidistant_range 9 < equidistant_range 10.144
   \<and> close_range 9 < close_range 10.144"
  using radii_grow [of 9 "10.144"] by simp

end
